theory Spec2Isabelle
  imports Main "HOL-Library.Word"
begin

unbundle bit_operations_syntax

section \<open>The shim of ext-php-rs: wrapper.c over the PHP engine\<close>

text \<open>
  wrapper.c is a list of small C functions over the Zend engine. The engine itself
  (its functions, macros, constants and global variables) is not part of the
  repository: wrapper.c reaches it through \<^verbatim>\<open>php.h\<close> and the other headers
  that wrapper.h includes. The embedding therefore takes the engine as a parameter:
  a record with one field for every engine name that wrapper.c mentions. Each
  wrapper is translated line by line over that record, and a property that names no
  particular engine holds for every engine.
\<close>

subsection \<open>Values, outcomes and the machine state\<close>

text \<open>A C pointer is its address; \<open>0\<close> is \<^verbatim>\<open>NULL\<close>.\<close>

type_synonym ptr = nat

type_synonym u32 = "32 word"

text \<open>
  A C call either returns to its caller, or leaves it through the engine's
  \<^verbatim>\<open>longjmp\<close> (a bailout): control then continues in the innermost
  enclosing \<^verbatim>\<open>zend_try\<close> block, and the caller's remaining statements
  do not run.
\<close>

datatype 'a outcome = Returned 'a | Bailout

text \<open>
  The state wrapper.c reads and writes by itself: the \<^verbatim>\<open>zend_string\<close>
  objects by address (\<open>'zs\<close> is the engine's struct), the \<^verbatim>\<open>void *\<close>
  cells by address (the target of an out-parameter), and the bytes written to the
  standard output. Everything else (the engine's own state) is \<open>engine_state\<close>.
  A pointer that wrapper.c reads or writes through must be valid, as C requires and
  wrapper.c never tests; the model has an object at every address.
\<close>

record ('zs, 'w) machine =
  zstr :: "ptr \<Rightarrow> 'zs"
  cell :: "ptr \<Rightarrow> ptr"
  stdout :: string
  engine_state :: 'w

type_synonym ('a, 'zs, 'w) call = "('zs, 'w) machine \<Rightarrow> 'a outcome \<times> ('zs, 'w) machine"

text \<open>
  Two C statements in sequence: the second runs in the state the first left, unless
  the first left through a bailout.
\<close>

definition ret :: "'a \<Rightarrow> ('a, 'zs, 'w) call" where
  "ret v s = (Returned v, s)"

definition andthen :: "('a, 'zs, 'w) call \<Rightarrow> ('a \<Rightarrow> ('b, 'zs, 'w) call) \<Rightarrow> ('b, 'zs, 'w) call" where
  "andthen m f s = (case m s of (Returned v, s') \<Rightarrow> f v s' | (Bailout, s') \<Rightarrow> (Bailout, s'))"

text \<open>A call whose return value the caller drops: \<^verbatim>\<open>(void) f();\<close>.\<close>

definition discard :: "('a, 'zs, 'w) call \<Rightarrow> (unit, 'zs, 'w) call" where
  "discard m = andthen m (\<lambda>_. ret ())"

text \<open>The assignment \<^verbatim>\<open>*p = v\<close> to a \<^verbatim>\<open>void **p\<close>.\<close>

definition store :: "ptr \<Rightarrow> ptr \<Rightarrow> (unit, 'zs, 'w) call" where
  "store p v s = (Returned (), s\<lparr>cell := (cell s)(p := v)\<rparr>)"

text \<open>\<^verbatim>\<open>printf\<close> of an already formatted text.\<close>

definition printf :: "string \<Rightarrow> (unit, 'zs, 'w) call" where
  "printf txt s = (Returned (), s\<lparr>stdout := stdout s @ txt\<rparr>)"

subsection \<open>The build configuration\<close>

text \<open>
  The preprocessor symbols that wrapper.c tests with \<^verbatim>\<open>#ifdef\<close>.
  \<open>SIGPIPE_and_SIG_IGN\<close> stands for
  \<^verbatim>\<open>defined(SIGPIPE) && defined(SIG_IGN)\<close>.
\<close>

record build =
  ZTS :: bool
  ZEND_ENABLE_STATIC_TSRMLS_CACHE :: bool
  PHP_WIN32 :: bool
  SIGPIPE_and_SIG_IGN :: bool

subsection \<open>The engine, as wrapper.c sees it\<close>

text \<open>
  One field for each name of the engine and of the C library in wrapper.c. Functions
  that may change the state or bail out are calls; macros that only read are
  functions of the state; the flag macros of \<^verbatim>\<open>zend_string\<close> work on the
  object itself. \<open>addr_X\<close> is \<^verbatim>\<open>&X\<close> for a static global \<open>X\<close>.
\<close>

record ('zs, 'w) engine =
  zend_string_init :: "ptr \<Rightarrow> nat \<Rightarrow> bool \<Rightarrow> (ptr, 'zs, 'w) call"
  zend_string_release :: "ptr \<Rightarrow> (unit, 'zs, 'w) call"
  GC_FLAGS :: "'zs \<Rightarrow> u32"
  GC_ADD_FLAGS :: "'zs \<Rightarrow> u32 \<Rightarrow> 'zs"
  ZSTR_IS_INTERNED :: "'zs \<Rightarrow> u32"
  IS_STR_VALID_UTF8 :: u32
  ZEND_MODULE_BUILD_ID :: string
  zend_object_alloc :: "nat \<Rightarrow> ptr \<Rightarrow> (ptr, 'zs, 'w) call"
  zend_object_release :: "ptr \<Rightarrow> (unit, 'zs, 'w) call"
  TSRMG_FAST_BULK_STATIC :: "int \<Rightarrow> ('zs, 'w) machine \<Rightarrow> ptr"
  TSRMG_FAST_BULK :: "int \<Rightarrow> ('zs, 'w) machine \<Rightarrow> ptr"
  executor_globals_offset :: "('zs, 'w) machine \<Rightarrow> int"
  core_globals_offset :: "('zs, 'w) machine \<Rightarrow> int"
  sapi_globals_offset :: "('zs, 'w) machine \<Rightarrow> int"
  file_globals_id :: "('zs, 'w) machine \<Rightarrow> int"
  addr_executor_globals :: ptr
  addr_core_globals :: ptr
  addr_sapi_globals :: ptr
  addr_file_globals :: ptr
  addr_sapi_module :: ptr
  PHP_EMBED_BLOCK :: "int \<Rightarrow> ptr \<Rightarrow> (ptr, 'zs, 'w) call \<Rightarrow> (ptr option, 'zs, 'w) call"
  signal :: "int \<Rightarrow> ptr \<Rightarrow> (ptr, 'zs, 'w) call"
  SIGPIPE :: int
  SIG_IGN :: ptr
  php_tsrm_startup :: "(bool, 'zs, 'w) call"
  ZEND_TSRMLS_CACHE_UPDATE :: "(unit, 'zs, 'w) call"
  zend_signal_startup :: "(unit, 'zs, 'w) call"
  tsrm_shutdown :: "(unit, 'zs, 'w) call"
  ts_resource :: "int \<Rightarrow> (ptr, 'zs, 'w) call"
  SG_request_info_request_method :: "('zs, 'w) machine \<Rightarrow> string option"

subsection \<open>String and object lifecycle (wrapper.c, lines 3 to 29)\<close>

definition ext_php_rs_zend_string_init ::
  "('zs, 'w) engine \<Rightarrow> ptr \<Rightarrow> nat \<Rightarrow> bool \<Rightarrow> (ptr, 'zs, 'w) call" where
  "ext_php_rs_zend_string_init E str len persistent = zend_string_init E str len persistent"

definition ext_php_rs_zend_string_release :: "('zs, 'w) engine \<Rightarrow> ptr \<Rightarrow> (unit, 'zs, 'w) call" where
  "ext_php_rs_zend_string_release E zs = zend_string_release E zs"

text \<open>
  \<^verbatim>\<open>return GC_FLAGS(zs) & IS_STR_VALID_UTF8;\<close> with the return type
  \<^verbatim>\<open>bool\<close>: the conversion to \<^verbatim>\<open>bool\<close> gives true for every
  value other than zero.
\<close>

definition ext_php_rs_is_known_valid_utf8 :: "('zs, 'w) engine \<Rightarrow> ptr \<Rightarrow> ('zs, 'w) machine \<Rightarrow> bool" where
  "ext_php_rs_is_known_valid_utf8 E zs s = (GC_FLAGS E (zstr s zs) AND IS_STR_VALID_UTF8 E \<noteq> 0)"

text \<open>
  \<^verbatim>\<open>if (!ZSTR_IS_INTERNED(zs)) { GC_ADD_FLAGS(zs, IS_STR_VALID_UTF8); }\<close>:
  the macro updates the object that \<open>zs\<close> points to, in place.
\<close>

definition ext_php_rs_set_known_valid_utf8 ::
  "('zs, 'w) engine \<Rightarrow> ptr \<Rightarrow> ('zs, 'w) machine \<Rightarrow> ('zs, 'w) machine" where
  "ext_php_rs_set_known_valid_utf8 E zs s =
     (if ZSTR_IS_INTERNED E (zstr s zs) = 0
      then s\<lparr>zstr := (zstr s)(zs := GC_ADD_FLAGS E (zstr s zs) (IS_STR_VALID_UTF8 E))\<rparr>
      else s)"

definition ext_php_rs_php_build_id :: "('zs, 'w) engine \<Rightarrow> string" where
  "ext_php_rs_php_build_id E = ZEND_MODULE_BUILD_ID E"

definition ext_php_rs_zend_object_alloc ::
  "('zs, 'w) engine \<Rightarrow> nat \<Rightarrow> ptr \<Rightarrow> (ptr, 'zs, 'w) call" where
  "ext_php_rs_zend_object_alloc E obj_size ce = zend_object_alloc E obj_size ce"

definition ext_php_rs_zend_object_release :: "('zs, 'w) engine \<Rightarrow> ptr \<Rightarrow> (unit, 'zs, 'w) call" where
  "ext_php_rs_zend_object_release E obj = zend_object_release E obj"

subsection \<open>Globals accessors (wrapper.c, lines 31 to 77)\<close>

text \<open>
  The three \<^verbatim>\<open>#ifdef\<close> branches of each accessor. The macros only read,
  so an accessor is a function of the state and changes nothing.
\<close>

definition ext_php_rs_executor_globals :: "build \<Rightarrow> ('zs, 'w) engine \<Rightarrow> ('zs, 'w) machine \<Rightarrow> ptr" where
  "ext_php_rs_executor_globals B E s =
     (if ZTS B then
        (if ZEND_ENABLE_STATIC_TSRMLS_CACHE B
         then TSRMG_FAST_BULK_STATIC E (executor_globals_offset E s) s
         else TSRMG_FAST_BULK E (executor_globals_offset E s) s)
      else addr_executor_globals E)"

definition ext_php_rs_process_globals :: "build \<Rightarrow> ('zs, 'w) engine \<Rightarrow> ('zs, 'w) machine \<Rightarrow> ptr" where
  "ext_php_rs_process_globals B E s =
     (if ZTS B then
        (if ZEND_ENABLE_STATIC_TSRMLS_CACHE B
         then TSRMG_FAST_BULK_STATIC E (core_globals_offset E s) s
         else TSRMG_FAST_BULK E (core_globals_offset E s) s)
      else addr_core_globals E)"

definition ext_php_rs_sapi_globals :: "build \<Rightarrow> ('zs, 'w) engine \<Rightarrow> ('zs, 'w) machine \<Rightarrow> ptr" where
  "ext_php_rs_sapi_globals B E s =
     (if ZTS B then
        (if ZEND_ENABLE_STATIC_TSRMLS_CACHE B
         then TSRMG_FAST_BULK_STATIC E (sapi_globals_offset E s) s
         else TSRMG_FAST_BULK E (sapi_globals_offset E s) s)
      else addr_sapi_globals E)"

definition ext_php_rs_file_globals :: "build \<Rightarrow> ('zs, 'w) engine \<Rightarrow> ('zs, 'w) machine \<Rightarrow> ptr" where
  "ext_php_rs_file_globals B E s =
     (if ZTS B then TSRMG_FAST_BULK E (file_globals_id E s) s else addr_file_globals E)"

definition ext_php_rs_sapi_module :: "('zs, 'w) engine \<Rightarrow> ptr" where
  "ext_php_rs_sapi_module E = addr_sapi_module E"

subsection \<open>Running a callback under the engine's recovery (wrapper.c, lines 79 to 101)\<close>

text \<open>
  Modelled from the spec: the macros \<^verbatim>\<open>zend_try\<close>, \<^verbatim>\<open>zend_catch\<close>
  and \<^verbatim>\<open>zend_end_try\<close>, which the engine's headers define and the repository
  only uses. The spec calls them the engine's crash-recovery mechanism, and a bailout
  the engine's longjmp-based unwinding past normal control flow: the body runs; when it
  completes, control continues after the block (\<open>rest\<close>); when it bails out, the
  bailout stops at the block and control continues in the catch branch (\<open>handler\<close>).
\<close>

definition zend_try ::
  "(unit, 'zs, 'w) call \<Rightarrow> ('a, 'zs, 'w) call \<Rightarrow> ('a, 'zs, 'w) call \<Rightarrow> ('a, 'zs, 'w) call" where
  "zend_try body handler rest s =
     (case body s of (Returned _, s') \<Rightarrow> rest s' | (Bailout, s') \<Rightarrow> handler s')"

text \<open>
  Modelled from the spec: \<^verbatim>\<open>zend_first_try\<close>, the engine's macro for the
  outermost such block, of which the spec says the same and no more.
\<close>

definition zend_first_try ::
  "(unit, 'zs, 'w) call \<Rightarrow> ('a, 'zs, 'w) call \<Rightarrow> ('a, 'zs, 'w) call \<Rightarrow> ('a, 'zs, 'w) call" where
  "zend_first_try body handler rest s =
     (case body s of (Returned _, s') \<Rightarrow> rest s' | (Bailout, s') \<Rightarrow> handler s')"

text \<open>
  A callback \<^verbatim>\<open>void *(*callback)(void *)\<close> is any call from a pointer to a
  pointer: it may change the whole state, and it may bail out. The body of the block is
  \<^verbatim>\<open>*result = callback(ctx);\<close>, the catch branch is
  \<^verbatim>\<open>return true;\<close>, and \<^verbatim>\<open>return false;\<close> follows the block.
  \<open>result\<close> is written through without a test, as in the C.
\<close>

definition ext_php_rs_zend_try_catch ::
  "(ptr \<Rightarrow> (ptr, 'zs, 'w) call) \<Rightarrow> ptr \<Rightarrow> ptr \<Rightarrow> (bool, 'zs, 'w) call" where
  "ext_php_rs_zend_try_catch callback ctx result =
     zend_try (andthen (callback ctx) (store result)) (ret True) (ret False)"

definition ext_php_rs_zend_first_try_catch ::
  "(ptr \<Rightarrow> (ptr, 'zs, 'w) call) \<Rightarrow> ptr \<Rightarrow> ptr \<Rightarrow> (bool, 'zs, 'w) call" where
  "ext_php_rs_zend_first_try_catch callback ctx result =
     zend_first_try (andthen (callback ctx) (store result)) (ret True) (ret False)"

text \<open>
  Modelled from the spec: \<^verbatim>\<open>zend_bailout\<close>, the engine's macro that the
  repository only calls. The spec: "the engine's longjmp-based mechanism for aborting
  execution on a fatal error, unwinding past normal control flow". What the engine
  writes to its own state on the way is not in the spec and is left out.
\<close>

definition zend_bailout :: "(unit, 'zs, 'w) call" where
  "zend_bailout s = (Bailout, s)"

definition ext_php_rs_zend_bailout :: "(unit, 'zs, 'w) call" where
  "ext_php_rs_zend_bailout = zend_bailout"

subsection \<open>The embed SAPI (wrapper.c, lines 103 to 157)\<close>

text \<open>
  \<^verbatim>\<open>PHP_EMBED_START_BLOCK\<close> and \<^verbatim>\<open>PHP_EMBED_END_BLOCK\<close> are one
  parameter of the engine: the block around a body, which yields the body's value when
  the body completes. The local \<^verbatim>\<open>result\<close> starts as \<^verbatim>\<open>NULL\<close>
  and is assigned inside the block.
\<close>

definition ext_php_rs_embed_callback ::
  "('zs, 'w) engine \<Rightarrow> int \<Rightarrow> ptr \<Rightarrow> (ptr \<Rightarrow> (ptr, 'zs, 'w) call) \<Rightarrow> ptr \<Rightarrow> (ptr, 'zs, 'w) call" where
  "ext_php_rs_embed_callback E argc argv callback ctx =
     andthen (PHP_EMBED_BLOCK E argc argv (callback ctx))
       (\<lambda>r. ret (case r of None \<Rightarrow> 0 | Some v \<Rightarrow> v))"

definition ext_php_rs_sapi_startup :: "build \<Rightarrow> ('zs, 'w) engine \<Rightarrow> (unit, 'zs, 'w) call" where
  "ext_php_rs_sapi_startup B E =
     andthen (if SIGPIPE_and_SIG_IGN B then discard (signal E (SIGPIPE E) (SIG_IGN E)) else ret ())
       (\<lambda>_. andthen
          (if ZTS B
           then andthen (discard (php_tsrm_startup E))
                  (\<lambda>_. if PHP_WIN32 B then ZEND_TSRMLS_CACHE_UPDATE E else ret ())
           else ret ())
          (\<lambda>_. zend_signal_startup E))"

definition ext_php_rs_sapi_shutdown :: "build \<Rightarrow> ('zs, 'w) engine \<Rightarrow> (unit, 'zs, 'w) call" where
  "ext_php_rs_sapi_shutdown B E = (if ZTS B then tsrm_shutdown E else ret ())"

definition ext_php_rs_sapi_per_thread_init :: "build \<Rightarrow> ('zs, 'w) engine \<Rightarrow> (unit, 'zs, 'w) call" where
  "ext_php_rs_sapi_per_thread_init B E =
     (if ZTS B
      then andthen (discard (ts_resource E 0))
             (\<lambda>_. if PHP_WIN32 B then ZEND_TSRMLS_CACHE_UPDATE E else ret ())
      else ret ())"

text \<open>
  The two \<^verbatim>\<open>printf\<close> lines of \<^verbatim>\<open>ext_php_rs_sapi_check_sg\<close>;
  \<open>CHR 0x22\<close> is the double quote and \<open>CHR 0x0A\<close> the newline. A C string
  pointer is \<open>None\<close> when it is \<^verbatim>\<open>NULL\<close>.
\<close>

definition ext_php_rs_sapi_check_sg :: "('zs, 'w) engine \<Rightarrow> (unit, 'zs, 'w) call" where
  "ext_php_rs_sapi_check_sg E s =
     (case SG_request_info_request_method E s of
        None \<Rightarrow> printf (''SG(request_info).request_method: NULL'' @ [CHR 0x0A]) s
      | Some request_method \<Rightarrow>
          printf (''SG(request_info).request_method: '' @ [CHR 0x22] @ request_method
                  @ [CHR 0x22, CHR 0x0A]) s)"

subsection \<open>The start-up order, as the specification words it\<close>

text \<open>
  A list of routines run in order, each once: the next one runs in the state the one
  before left, and a bailout of one ends the run there. The list is the one of the
  specification: ignore \<^verbatim>\<open>SIGPIPE\<close> (when defined), then under ZTS
  \<^verbatim>\<open>php_tsrm_startup\<close> (and on Windows the cache update), then
  \<^verbatim>\<open>zend_signal_startup\<close>.
\<close>

fun in_order :: "(unit, 'zs, 'w) call list \<Rightarrow> (unit, 'zs, 'w) call" where
  "in_order [] = ret ()"
| "in_order (c # cs) = andthen c (\<lambda>_. in_order cs)"

definition sapi_startup_routines :: "build \<Rightarrow> ('zs, 'w) engine \<Rightarrow> (unit, 'zs, 'w) call list" where
  "sapi_startup_routines B E =
     (if SIGPIPE_and_SIG_IGN B then [discard (signal E (SIGPIPE E) (SIG_IGN E))] else [])
     @ (if ZTS B
        then discard (php_tsrm_startup E) # (if PHP_WIN32 B then [ZEND_TSRMLS_CACHE_UPDATE E] else [])
        else [])
     @ [zend_signal_startup E]"

subsection \<open>A reference engine, for evaluating the wrappers\<close>

text \<open>
  The properties below hold for every engine. To evaluate a wrapper on a concrete
  input, an engine is needed; this one follows the engine's public headers, which the
  repository includes and does not contain. From \<^verbatim>\<open>Zend/zend_types.h\<close>:
  the header of a \<^verbatim>\<open>zend_string\<close>, the flags of an object as the bits
  \<^verbatim>\<open>GC_FLAGS_MASK\<close> of its \<^verbatim>\<open>type_info\<close>, and the flags
  \<^verbatim>\<open>IS_STR_INTERNED\<close> (bit 6) and \<^verbatim>\<open>IS_STR_VALID_UTF8\<close>
  (bit 9).
\<close>

record php_zend_string =
  gc_refcount :: u32
  gc_type_info :: u32
  zs_h :: "64 word"
  zs_len :: nat
  zs_val :: string

definition GC_FLAGS_MASK :: u32 where
  "GC_FLAGS_MASK = 0x3f0"

definition GC_FLAGS_SHIFT :: nat where
  "GC_FLAGS_SHIFT = 0"

definition IS_STR_INTERNED :: u32 where
  "IS_STR_INTERNED = push_bit 6 1"

definition ref_GC_FLAGS :: "php_zend_string \<Rightarrow> u32" where
  "ref_GC_FLAGS z = drop_bit GC_FLAGS_SHIFT (gc_type_info z) AND drop_bit GC_FLAGS_SHIFT GC_FLAGS_MASK"

definition ref_GC_ADD_FLAGS :: "php_zend_string \<Rightarrow> u32 \<Rightarrow> php_zend_string" where
  "ref_GC_ADD_FLAGS z flags = z\<lparr>gc_type_info := gc_type_info z OR push_bit GC_FLAGS_SHIFT flags\<rparr>"

definition ref_ZSTR_IS_INTERNED :: "php_zend_string \<Rightarrow> u32" where
  "ref_ZSTR_IS_INTERNED z = ref_GC_FLAGS z AND IS_STR_INTERNED"

definition ref_IS_STR_VALID_UTF8 :: u32 where
  "ref_IS_STR_VALID_UTF8 = push_bit 9 1"

text \<open>
  From \<^verbatim>\<open>TSRM/TSRM.h\<close>: a thread's block of engine globals starts at the
  address \<^verbatim>\<open>tsrm_get_ls_cache()\<close> returns (\<^verbatim>\<open>TSRMLS_CACHE\<close> is an
  extension's own copy of it). A structure registered with an offset lies inside the
  block, at that many bytes from its start: \<^verbatim>\<open>TSRMG_FAST_BULK(offset, type)\<close>
  is \<^verbatim>\<open>(type)((char *) tsrm_get_ls_cache() + (offset))\<close>. A structure
  registered with an id lies elsewhere, and the block's table holds its address in
  slot \<open>id - 1\<close>: \<^verbatim>\<open>TSRMG_BULK(id, type)\<close> is
  \<^verbatim>\<open>(type)(*((void ***) tsrm_get_ls_cache()))[(id) - 1]\<close>. The engine
  registers its executor, core and SAPI globals with an offset, and the file globals
  of \<^verbatim>\<open>ext/standard/file.c\<close> with an id (\<^verbatim>\<open>ts_allocate_id\<close>).
\<close>

record php_world =
  tsrm_ls_cache :: ptr
  tsrmls_cache_static :: ptr
  tsrm_storage :: "nat \<Rightarrow> ptr"
  var_executor_globals_offset :: int
  var_core_globals_offset :: int
  var_sapi_globals_offset :: int
  var_file_globals_id :: int
  sg_request_method :: "string option"
  called :: "string list"

type_synonym php_machine = "(php_zend_string, php_world) machine"

definition ref_TSRMG_FAST_BULK :: "int \<Rightarrow> php_machine \<Rightarrow> ptr" where
  "ref_TSRMG_FAST_BULK offset s = nat (int (tsrm_ls_cache (engine_state s)) + offset)"

definition ref_TSRMG_FAST_BULK_STATIC :: "int \<Rightarrow> php_machine \<Rightarrow> ptr" where
  "ref_TSRMG_FAST_BULK_STATIC offset s = nat (int (tsrmls_cache_static (engine_state s)) + offset)"

definition TSRMG_BULK :: "int \<Rightarrow> php_machine \<Rightarrow> ptr" where
  "TSRMG_BULK ident s = tsrm_storage (engine_state s) (nat (ident - 1))"

text \<open>
  The engine's functions are not modelled: each one of the reference engine records
  its name in \<open>called\<close> and returns, which is enough to read off which functions a
  wrapper calls, and in which order.
\<close>

definition log_call :: "string \<Rightarrow> php_machine \<Rightarrow> php_machine" where
  "log_call name s = s\<lparr>engine_state := (engine_state s)\<lparr>called := called (engine_state s) @ [name]\<rparr>\<rparr>"

definition logged :: "string \<Rightarrow> 'a \<Rightarrow> ('a, php_zend_string, php_world) call" where
  "logged name v s = (Returned v, log_call name s)"

definition ref_PHP_EMBED_BLOCK ::
  "int \<Rightarrow> ptr \<Rightarrow> (ptr, php_zend_string, php_world) call \<Rightarrow> (ptr option, php_zend_string, php_world) call" where
  "ref_PHP_EMBED_BLOCK argc argv body s =
     (case body (log_call ''php_embed_init'' s) of
        (Returned v, s') \<Rightarrow> (Returned (Some v), log_call ''php_embed_shutdown'' s')
      | (Bailout, s') \<Rightarrow> (Returned None, log_call ''php_embed_shutdown'' s'))"

definition ref_engine :: "(php_zend_string, php_world) engine" where
  "ref_engine = \<lparr>
     zend_string_init = (\<lambda>str len persistent. logged ''zend_string_init'' 0),
     zend_string_release = (\<lambda>zs. logged ''zend_string_release'' ()),
     GC_FLAGS = ref_GC_FLAGS,
     GC_ADD_FLAGS = ref_GC_ADD_FLAGS,
     ZSTR_IS_INTERNED = ref_ZSTR_IS_INTERNED,
     IS_STR_VALID_UTF8 = ref_IS_STR_VALID_UTF8,
     ZEND_MODULE_BUILD_ID = ''API20230831,NTS'',
     zend_object_alloc = (\<lambda>obj_size ce. logged ''zend_object_alloc'' 0),
     zend_object_release = (\<lambda>obj. logged ''zend_object_release'' ()),
     TSRMG_FAST_BULK_STATIC = ref_TSRMG_FAST_BULK_STATIC,
     TSRMG_FAST_BULK = ref_TSRMG_FAST_BULK,
     executor_globals_offset = (\<lambda>s. var_executor_globals_offset (engine_state s)),
     core_globals_offset = (\<lambda>s. var_core_globals_offset (engine_state s)),
     sapi_globals_offset = (\<lambda>s. var_sapi_globals_offset (engine_state s)),
     file_globals_id = (\<lambda>s. var_file_globals_id (engine_state s)),
     addr_executor_globals = 1000,
     addr_core_globals = 2000,
     addr_sapi_globals = 3000,
     addr_file_globals = 4000,
     addr_sapi_module = 5000,
     PHP_EMBED_BLOCK = ref_PHP_EMBED_BLOCK,
     signal = (\<lambda>signum handler. logged ''signal'' 0),
     SIGPIPE = 13,
     SIG_IGN = 1,
     php_tsrm_startup = logged ''php_tsrm_startup'' True,
     ZEND_TSRMLS_CACHE_UPDATE = logged ''ZEND_TSRMLS_CACHE_UPDATE'' (),
     zend_signal_startup = logged ''zend_signal_startup'' (),
     tsrm_shutdown = logged ''tsrm_shutdown'' (),
     ts_resource = (\<lambda>ident. logged ''ts_resource'' 0),
     SG_request_info_request_method = (\<lambda>s. sg_request_method (engine_state s))
   \<rparr>"

text \<open>
  Concrete inputs. A thread of a ZTS build whose block of globals starts at address
  4096, with the executor, core and SAPI globals at offsets 64, 2048 and 3072 in it,
  and the file globals registered under id 3 and allocated at address 8192. Two
  strings: a plain one at address 16 and an interned one at address 32
  (\<open>0x16\<close> is \<^verbatim>\<open>GC_STRING\<close>, \<open>0x56\<close> adds \<^verbatim>\<open>IS_STR_INTERNED\<close>).
\<close>

definition world0 :: php_world where
  "world0 = \<lparr>
     tsrm_ls_cache = 4096,
     tsrmls_cache_static = 4096,
     tsrm_storage = (\<lambda>i. if i = 2 then 8192 else 0),
     var_executor_globals_offset = 64,
     var_core_globals_offset = 2048,
     var_sapi_globals_offset = 3072,
     var_file_globals_id = 3,
     sg_request_method = None,
     called = []
   \<rparr>"

definition plain_string :: php_zend_string where
  "plain_string = \<lparr>gc_refcount = 1, gc_type_info = 0x16, zs_h = 0, zs_len = 3, zs_val = ''abc''\<rparr>"

definition interned_string :: php_zend_string where
  "interned_string = \<lparr>gc_refcount = 1, gc_type_info = 0x56, zs_h = 0, zs_len = 3, zs_val = ''abc''\<rparr>"

definition machine0 :: php_machine where
  "machine0 = \<lparr>
     zstr = (\<lambda>p. if p = 32 then interned_string else plain_string),
     cell = (\<lambda>p. 0),
     stdout = [],
     engine_state = world0
   \<rparr>"

definition zts_build :: build where
  "zts_build = \<lparr>ZTS = True, ZEND_ENABLE_STATIC_TSRMLS_CACHE = False, PHP_WIN32 = False,
     SIGPIPE_and_SIG_IGN = True\<rparr>"

definition zts_win32_build :: build where
  "zts_win32_build = \<lparr>ZTS = True, ZEND_ENABLE_STATIC_TSRMLS_CACHE = False, PHP_WIN32 = True,
     SIGPIPE_and_SIG_IGN = True\<rparr>"

definition nts_build :: build where
  "nts_build = \<lparr>ZTS = False, ZEND_ENABLE_STATIC_TSRMLS_CACHE = False, PHP_WIN32 = False,
     SIGPIPE_and_SIG_IGN = True\<rparr>"

section \<open>Properties\<close>

subsection \<open>Sequencing\<close>

lemma andthen_ret: "andthen (ret v) f = f v"
  by (rule ext) (simp add: andthen_def ret_def)

lemma andthen_ret_right: "andthen m ret = m"
  by (rule ext) (simp add: andthen_def ret_def split: prod.splits outcome.splits)

lemma andthen_assoc: "andthen (andthen m f) g = andthen m (\<lambda>v. andthen (f v) g)"
  by (rule ext) (simp add: andthen_def split: prod.splits outcome.splits)

lemma andthen_Returned: "m s = (Returned v, s') \<Longrightarrow> andthen m f s = f v s'"
  by (simp add: andthen_def)

lemma andthen_Bailout: "m s = (Bailout, s') \<Longrightarrow> andthen m f s = (Bailout, s')"
  by (simp add: andthen_def)

subsection \<open>String and object lifecycle\<close>

text \<open>
  C3. The string and object lifecycle wrappers are one-line forwards: on every
  argument and in every state, \<open>ext_php_rs_zend_string_init\<close> returns what
  \<open>zend_string_init\<close> returns and leaves the state it leaves, and likewise
  \<open>ext_php_rs_zend_string_release\<close>, \<open>ext_php_rs_zend_object_alloc\<close> and
  \<open>ext_php_rs_zend_object_release\<close> for their engine functions.
\<close>

theorem lifecycle_wrappers_forward:
  "ext_php_rs_zend_string_init E str len persistent s = zend_string_init E str len persistent s
   \<and> ext_php_rs_zend_string_release E zs s = zend_string_release E zs s
   \<and> ext_php_rs_zend_object_alloc E obj_size ce s = zend_object_alloc E obj_size ce s
   \<and> ext_php_rs_zend_object_release E obj s = zend_object_release E obj s"
  by (simp add: ext_php_rs_zend_string_init_def ext_php_rs_zend_string_release_def
      ext_php_rs_zend_object_alloc_def ext_php_rs_zend_object_release_def)

subsection \<open>The UTF-8 flag\<close>

text \<open>
  What the reference engine's macros do with the flag: adding it sets bit 9 of the
  flags and keeps the others.
\<close>

lemma ref_engine_add_valid_utf8:
  "GC_FLAGS ref_engine (GC_ADD_FLAGS ref_engine z (IS_STR_VALID_UTF8 ref_engine))
     = GC_FLAGS ref_engine z OR IS_STR_VALID_UTF8 ref_engine"
  by (simp add: ref_engine_def ref_GC_FLAGS_def ref_GC_ADD_FLAGS_def ref_IS_STR_VALID_UTF8_def
      GC_FLAGS_SHIFT_def GC_FLAGS_MASK_def bit.conj_disj_distrib2)

lemma ref_engine_valid_utf8_nonzero: "IS_STR_VALID_UTF8 ref_engine \<noteq> 0"
  by (simp add: ref_engine_def ref_IS_STR_VALID_UTF8_def)

lemma ref_plain_not_interned: "ZSTR_IS_INTERNED ref_engine (zstr machine0 16) = 0"
  by (simp add: ref_engine_def machine0_def plain_string_def ref_ZSTR_IS_INTERNED_def
      ref_GC_FLAGS_def GC_FLAGS_SHIFT_def GC_FLAGS_MASK_def IS_STR_INTERNED_def)

lemma ref_interned_is_interned: "ZSTR_IS_INTERNED ref_engine (zstr machine0 32) \<noteq> 0"
  by (simp add: ref_engine_def machine0_def interned_string_def ref_ZSTR_IS_INTERNED_def
      ref_GC_FLAGS_def GC_FLAGS_SHIFT_def GC_FLAGS_MASK_def IS_STR_INTERNED_def)

lemma ref_plain_flags: "GC_FLAGS ref_engine (zstr machine0 16) = 0x10"
  by (simp add: ref_engine_def machine0_def plain_string_def ref_GC_FLAGS_def
      GC_FLAGS_SHIFT_def GC_FLAGS_MASK_def)

text \<open>
  C8. On an interned string \<open>ext_php_rs_set_known_valid_utf8\<close> is a no-op: the
  whole state, the string's flags included, is as before. On a string that is not
  interned its only effect is the engine's \<^verbatim>\<open>GC_ADD_FLAGS\<close> of
  \<^verbatim>\<open>IS_STR_VALID_UTF8\<close> on that one string: every other string, every
  memory cell, the output and the engine's state are as before, and (the engine's
  macro adding the flags it is given) the string's flags are the old ones with
  \<^verbatim>\<open>IS_STR_VALID_UTF8\<close> added.
\<close>

theorem set_known_valid_utf8_effect:
  assumes add_flags:
    "\<And>z. GC_FLAGS E (GC_ADD_FLAGS E z (IS_STR_VALID_UTF8 E)) = GC_FLAGS E z OR IS_STR_VALID_UTF8 E"
  shows
    "(ZSTR_IS_INTERNED E (zstr s zs) \<noteq> 0 \<longrightarrow> ext_php_rs_set_known_valid_utf8 E zs s = s)
     \<and> (ZSTR_IS_INTERNED E (zstr s zs) = 0 \<longrightarrow>
          ext_php_rs_set_known_valid_utf8 E zs s
            = s\<lparr>zstr := (zstr s)(zs := GC_ADD_FLAGS E (zstr s zs) (IS_STR_VALID_UTF8 E))\<rparr>
        \<and> GC_FLAGS E (zstr (ext_php_rs_set_known_valid_utf8 E zs s) zs)
            = GC_FLAGS E (zstr s zs) OR IS_STR_VALID_UTF8 E
        \<and> (\<forall>p. p \<noteq> zs \<longrightarrow> zstr (ext_php_rs_set_known_valid_utf8 E zs s) p = zstr s p)
        \<and> cell (ext_php_rs_set_known_valid_utf8 E zs s) = cell s
        \<and> stdout (ext_php_rs_set_known_valid_utf8 E zs s) = stdout s
        \<and> engine_state (ext_php_rs_set_known_valid_utf8 E zs s) = engine_state s)"
  by (simp add: ext_php_rs_set_known_valid_utf8_def add_flags)

theorem set_known_valid_utf8_effect_witness:
  "ext_php_rs_set_known_valid_utf8 ref_engine 32 machine0 = machine0
   \<and> GC_FLAGS ref_engine (zstr (ext_php_rs_set_known_valid_utf8 ref_engine 16 machine0) 16) = 0x210
   \<and> zstr (ext_php_rs_set_known_valid_utf8 ref_engine 16 machine0) 32 = zstr machine0 32
   \<and> cell (ext_php_rs_set_known_valid_utf8 ref_engine 16 machine0) = cell machine0"
proof -
  have interned:
    "ext_php_rs_set_known_valid_utf8 ref_engine 32 machine0 = machine0"
    using set_known_valid_utf8_effect [of ref_engine machine0 32, OF ref_engine_add_valid_utf8]
      ref_interned_is_interned
    by blast
  have plain:
    "GC_FLAGS ref_engine (zstr (ext_php_rs_set_known_valid_utf8 ref_engine 16 machine0) 16)
       = GC_FLAGS ref_engine (zstr machine0 16) OR IS_STR_VALID_UTF8 ref_engine"
    "\<forall>p. p \<noteq> 16 \<longrightarrow> zstr (ext_php_rs_set_known_valid_utf8 ref_engine 16 machine0) p = zstr machine0 p"
    "cell (ext_php_rs_set_known_valid_utf8 ref_engine 16 machine0) = cell machine0"
    using set_known_valid_utf8_effect [of ref_engine machine0 16, OF ref_engine_add_valid_utf8]
      ref_plain_not_interned
    by blast+
  have flag: "IS_STR_VALID_UTF8 ref_engine = 0x200"
    by (simp add: ref_engine_def ref_IS_STR_VALID_UTF8_def)
  show ?thesis
    using interned plain by (simp add: ref_plain_flags flag)
qed

text \<open>
  C9. \<open>ext_php_rs_is_known_valid_utf8\<close> is true exactly when
  \<^verbatim>\<open>IS_STR_VALID_UTF8\<close> is set in the string's flags. For a string that is
  not interned, the query after \<open>ext_php_rs_set_known_valid_utf8\<close> is true (the
  flag being a flag, not zero, and the engine's macro adding the flags it is given).
\<close>

theorem valid_utf8_query_and_roundtrip:
  assumes add_flags:
    "\<And>z. GC_FLAGS E (GC_ADD_FLAGS E z (IS_STR_VALID_UTF8 E)) = GC_FLAGS E z OR IS_STR_VALID_UTF8 E"
    and flag: "IS_STR_VALID_UTF8 E \<noteq> 0"
  shows
    "ext_php_rs_is_known_valid_utf8 E zs s = (GC_FLAGS E (zstr s zs) AND IS_STR_VALID_UTF8 E \<noteq> 0)
     \<and> (ZSTR_IS_INTERNED E (zstr s zs) = 0 \<longrightarrow>
          ext_php_rs_is_known_valid_utf8 E zs (ext_php_rs_set_known_valid_utf8 E zs s))"
proof -
  have absorb: "(a OR b) AND b = b" for a b :: u32
    by (simp add: bit_eq_iff bit_simps)
  show ?thesis
    using flag
    by (simp add: ext_php_rs_is_known_valid_utf8_def ext_php_rs_set_known_valid_utf8_def
        add_flags absorb)
qed

theorem valid_utf8_query_and_roundtrip_witness:
  "\<not> ext_php_rs_is_known_valid_utf8 ref_engine 16 machine0
   \<and> ext_php_rs_is_known_valid_utf8 ref_engine 16 (ext_php_rs_set_known_valid_utf8 ref_engine 16 machine0)"
proof -
  have flag: "IS_STR_VALID_UTF8 ref_engine = 0x200"
    by (simp add: ref_engine_def ref_IS_STR_VALID_UTF8_def)
  have "ext_php_rs_is_known_valid_utf8 ref_engine 16 machine0
          = (GC_FLAGS ref_engine (zstr machine0 16) AND IS_STR_VALID_UTF8 ref_engine \<noteq> 0)"
    and "ext_php_rs_is_known_valid_utf8 ref_engine 16 (ext_php_rs_set_known_valid_utf8 ref_engine 16 machine0)"
    using valid_utf8_query_and_roundtrip [of ref_engine 16 machine0,
        OF ref_engine_add_valid_utf8 ref_engine_valid_utf8_nonzero]
      ref_plain_not_interned
    by blast+
  then show ?thesis
    by (simp add: ref_plain_flags flag)
qed

subsection \<open>Globals accessors\<close>

text \<open>
  An accessor changes nothing (it is a function of the state), and which lookup it
  makes depends on the build alone. For the executor, core and SAPI globals the
  ZTS lookup is the engine's own: the offset-based macro, at the offset the engine
  keeps for that structure.
\<close>

lemma accessors_select_by_build:
  "ext_php_rs_executor_globals B E s =
     (if ZTS B then
        (if ZEND_ENABLE_STATIC_TSRMLS_CACHE B
         then TSRMG_FAST_BULK_STATIC E (executor_globals_offset E s) s
         else TSRMG_FAST_BULK E (executor_globals_offset E s) s)
      else addr_executor_globals E)"
  "ext_php_rs_process_globals B E s =
     (if ZTS B then
        (if ZEND_ENABLE_STATIC_TSRMLS_CACHE B
         then TSRMG_FAST_BULK_STATIC E (core_globals_offset E s) s
         else TSRMG_FAST_BULK E (core_globals_offset E s) s)
      else addr_core_globals E)"
  "ext_php_rs_sapi_globals B E s =
     (if ZTS B then
        (if ZEND_ENABLE_STATIC_TSRMLS_CACHE B
         then TSRMG_FAST_BULK_STATIC E (sapi_globals_offset E s) s
         else TSRMG_FAST_BULK E (sapi_globals_offset E s) s)
      else addr_sapi_globals E)"
  "\<not> ZTS B \<Longrightarrow> ext_php_rs_file_globals B E s = addr_file_globals E"
  by (simp_all add: ext_php_rs_executor_globals_def ext_php_rs_process_globals_def
      ext_php_rs_sapi_globals_def ext_php_rs_file_globals_def)

lemma ref_accessors_zts:
  "ext_php_rs_executor_globals zts_build ref_engine machine0 = 4096 + 64"
  "ext_php_rs_process_globals zts_build ref_engine machine0 = 4096 + 2048"
  "ext_php_rs_sapi_globals zts_build ref_engine machine0 = 4096 + 3072"
  by (simp_all add: ext_php_rs_executor_globals_def ext_php_rs_process_globals_def
      ext_php_rs_sapi_globals_def zts_build_def ref_engine_def machine0_def world0_def
      ref_TSRMG_FAST_BULK_def)

text \<open>
  C4. Each globals accessor returns a pointer to its engine structure, by a
  thread-local lookup in a ZTS build and as the address of the static structure
  otherwise. In a ZTS build \<open>ext_php_rs_file_globals\<close> does not: it hands the
  id of the file globals to the offset-based macro, so what it returns is the start of
  the thread's block plus the id (here 4096 + 3), while the structure is where slot
  \<open>id - 1\<close> of the thread's table says (here 8192), which is what the engine's
  id-based lookup \<^verbatim>\<open>TSRMG_BULK\<close> returns.
\<close>

theorem file_globals_zts_takes_id_for_offset:
  "ext_php_rs_file_globals zts_build ref_engine machine0 = 4099
   \<and> TSRMG_BULK (file_globals_id ref_engine machine0) machine0 = 8192
   \<and> ext_php_rs_file_globals nts_build ref_engine machine0 = addr_file_globals ref_engine"
  by (simp add: ext_php_rs_file_globals_def zts_build_def nts_build_def ref_engine_def
      machine0_def world0_def ref_TSRMG_FAST_BULK_def TSRMG_BULK_def)

subsection \<open>Callbacks under the engine's recovery\<close>

lemma try_catch_cases:
  "ext_php_rs_zend_try_catch callback ctx result s =
     (case callback ctx s of
        (Returned v, s') \<Rightarrow> (Returned False, s'\<lparr>cell := (cell s')(result := v)\<rparr>)
      | (Bailout, s') \<Rightarrow> (Returned True, s'))"
  by (simp add: ext_php_rs_zend_try_catch_def zend_try_def andthen_def store_def ret_def
      split: prod.splits outcome.splits)

lemma first_try_catch_cases:
  "ext_php_rs_zend_first_try_catch callback ctx result s =
     (case callback ctx s of
        (Returned v, s') \<Rightarrow> (Returned False, s'\<lparr>cell := (cell s')(result := v)\<rparr>)
      | (Bailout, s') \<Rightarrow> (Returned True, s'))"
  by (simp add: ext_php_rs_zend_first_try_catch_def zend_first_try_def andthen_def store_def
      ret_def split: prod.splits outcome.splits)

text \<open>
  C2. For every callback and context pointer: when the callback returns \<open>v\<close>,
  leaving the state \<open>s'\<close>, \<open>ext_php_rs_zend_try_catch\<close> and
  \<open>ext_php_rs_zend_first_try_catch\<close> return false, with \<open>v\<close> stored in
  \<^verbatim>\<open>*result\<close> and nothing else changed after the callback; when the callback
  bails out, they return true (they return: the bailout stops in them).
\<close>

theorem try_catch_returns_flag:
  "(callback ctx s = (Returned v, s') \<longrightarrow>
      ext_php_rs_zend_try_catch callback ctx result s
        = (Returned False, s'\<lparr>cell := (cell s')(result := v)\<rparr>)
      \<and> ext_php_rs_zend_first_try_catch callback ctx result s
        = (Returned False, s'\<lparr>cell := (cell s')(result := v)\<rparr>))
   \<and> (callback ctx s = (Bailout, s') \<longrightarrow>
      fst (ext_php_rs_zend_try_catch callback ctx result s) = Returned True
      \<and> fst (ext_php_rs_zend_first_try_catch callback ctx result s) = Returned True)"
  by (simp add: try_catch_cases first_try_catch_cases)

theorem try_catch_returns_flag_witness:
  "fst (ext_php_rs_zend_try_catch (\<lambda>c s. (Returned (c + 1), s)) 41 7 machine0) = Returned False
   \<and> cell (snd (ext_php_rs_zend_try_catch (\<lambda>c s. (Returned (c + 1), s)) 41 7 machine0)) 7 = 42
   \<and> fst (ext_php_rs_zend_first_try_catch (\<lambda>c s. (Returned (c + 1), s)) 41 7 machine0) = Returned False
   \<and> cell (snd (ext_php_rs_zend_first_try_catch (\<lambda>c s. (Returned (c + 1), s)) 41 7 machine0)) 7 = 42
   \<and> fst (ext_php_rs_zend_try_catch (\<lambda>c s. (Bailout, s)) 41 7 machine0) = Returned True
   \<and> fst (ext_php_rs_zend_first_try_catch (\<lambda>c s. (Bailout, s)) 41 7 machine0) = Returned True"
  using try_catch_returns_flag [of "\<lambda>c s. (Returned (c + 1), s)" 41 machine0 42 machine0 7]
    try_catch_returns_flag [of "\<lambda>c s. (Bailout, s)" 41 machine0 0 machine0 7]
  by simp

text \<open>
  C10. When the callback bails out, the wrappers write to no memory cell: the cells
  are as the callback left them, \<^verbatim>\<open>*result\<close> among them. So a callback that
  has not written to \<^verbatim>\<open>*result\<close> itself leaves the caller's prior value
  there.
\<close>

theorem try_catch_bailout_keeps_result:
  "callback ctx s = (Bailout, s') \<longrightarrow>
     cell (snd (ext_php_rs_zend_try_catch callback ctx result s)) = cell s'
     \<and> cell (snd (ext_php_rs_zend_first_try_catch callback ctx result s)) = cell s'
     \<and> (cell s' result = cell s result \<longrightarrow>
          cell (snd (ext_php_rs_zend_try_catch callback ctx result s)) result = cell s result
          \<and> cell (snd (ext_php_rs_zend_first_try_catch callback ctx result s)) result = cell s result)"
  by (simp add: try_catch_cases first_try_catch_cases)

theorem try_catch_bailout_keeps_result_witness:
  "cell (snd (ext_php_rs_zend_try_catch
       (\<lambda>c s. (Bailout, s\<lparr>cell := (cell s)(9 := c)\<rparr>)) 41 7 (machine0\<lparr>cell := (\<lambda>p. 5)\<rparr>))) 7 = 5
   \<and> cell (snd (ext_php_rs_zend_first_try_catch
       (\<lambda>c s. (Bailout, s\<lparr>cell := (cell s)(9 := c)\<rparr>)) 41 7 (machine0\<lparr>cell := (\<lambda>p. 5)\<rparr>))) 7 = 5"
  using try_catch_bailout_keeps_result [of "\<lambda>c s. (Bailout, s\<lparr>cell := (cell s)(9 := c)\<rparr>)" 41
      "machine0\<lparr>cell := (\<lambda>p. 5)\<rparr>" "machine0\<lparr>cell := (\<lambda>p. 5)(9 := 41)\<rparr>" 7]
  by simp

text \<open>
  C6. \<open>ext_php_rs_zend_bailout\<close> forwards to the engine's \<^verbatim>\<open>zend_bailout\<close>,
  which unwinds past normal control flow; so it never returns to its caller: no
  value is returned, and whatever the caller has after the call does not run.
\<close>

theorem bailout_never_returns:
  "ext_php_rs_zend_bailout s = zend_bailout s
   \<and> fst (ext_php_rs_zend_bailout s) = Bailout
   \<and> (\<forall>v. fst (ext_php_rs_zend_bailout s) \<noteq> Returned v)
   \<and> (\<forall>f. fst (andthen ext_php_rs_zend_bailout f s) = Bailout)"
  by (simp add: ext_php_rs_zend_bailout_def zend_bailout_def andthen_def)

text \<open>A bailout raised through the wrapper is the one the adapters catch.\<close>

lemma bailout_is_caught:
  "fst (ext_php_rs_zend_try_catch (\<lambda>c. andthen ext_php_rs_zend_bailout (\<lambda>_. ret c)) ctx result s)
     = Returned True"
  by (simp add: try_catch_cases ext_php_rs_zend_bailout_def zend_bailout_def andthen_def)

subsection \<open>The embed SAPI\<close>

lemma in_order_append: "in_order (cs @ ds) = andthen (in_order cs) (\<lambda>_. in_order ds)"
  by (induction cs) (simp_all add: andthen_ret andthen_assoc)

text \<open>
  C5. \<open>ext_php_rs_sapi_startup\<close> runs the engine's routines in the fixed order of
  the specification, each once, on every call: it is the run, in order, of the list
  \<open>sapi_startup_routines\<close>. It has no retry and no recovery of its own: the
  value a routine returns is dropped, and a bailout of a routine ends the
  wrapper there.
\<close>

theorem sapi_startup_fixed_order:
  "ext_php_rs_sapi_startup B E s = in_order (sapi_startup_routines B E) s"
  by (simp add: ext_php_rs_sapi_startup_def sapi_startup_routines_def andthen_ret
      andthen_ret_right andthen_assoc)

text \<open>The order, read off the reference engine for three builds.\<close>

lemma ref_sapi_startup_calls:
  "called (engine_state (snd (ext_php_rs_sapi_startup zts_win32_build ref_engine machine0)))
     = [''signal'', ''php_tsrm_startup'', ''ZEND_TSRMLS_CACHE_UPDATE'', ''zend_signal_startup'']"
  "called (engine_state (snd (ext_php_rs_sapi_startup zts_build ref_engine machine0)))
     = [''signal'', ''php_tsrm_startup'', ''zend_signal_startup'']"
  "called (engine_state (snd (ext_php_rs_sapi_startup nts_build ref_engine machine0)))
     = [''signal'', ''zend_signal_startup'']"
  by (simp_all add: ext_php_rs_sapi_startup_def zts_win32_build_def zts_build_def nts_build_def
      ref_engine_def machine0_def world0_def andthen_def discard_def ret_def logged_def
      log_call_def)

text \<open>A routine that bails out ends the start-up: the later routines are not called.\<close>

lemma ref_sapi_startup_no_recovery:
  "ext_php_rs_sapi_startup zts_build (ref_engine\<lparr>php_tsrm_startup := (\<lambda>s. (Bailout, s))\<rparr>) machine0
     = (Bailout, log_call ''signal'' machine0)"
  by (simp add: ext_php_rs_sapi_startup_def zts_build_def ref_engine_def andthen_def
      discard_def ret_def logged_def)

text \<open>
  C7. \<open>ext_php_rs_sapi_shutdown\<close> performs only the engine's own shutdown: in a
  ZTS build it is \<^verbatim>\<open>tsrm_shutdown\<close> and nothing else, and in any other build
  it returns with the state unchanged.
\<close>

theorem sapi_shutdown_only_tsrm:
  "ext_php_rs_sapi_shutdown B E s = (if ZTS B then tsrm_shutdown E s else (Returned (), s))"
  by (simp add: ext_php_rs_sapi_shutdown_def ret_def)

subsection \<open>The shim as a whole\<close>

text \<open>
  C1, as stated: every exported function forwards to a single engine primitive, adds no
  runtime conditional and no output of its own, and so has the result and effect of
  that primitive on every input. It fails at three wrappers. On an interned string
  \<open>ext_php_rs_set_known_valid_utf8\<close> does not have the effect of its primitive
  \<^verbatim>\<open>GC_ADD_FLAGS\<close>: it tests the string at run time and leaves it alone.
  \<open>ext_php_rs_sapi_check_sg\<close> writes to the standard output, and writes one of
  two texts after a run-time test of the request method, while the engine macro it
  reads writes nothing. \<open>ext_php_rs_sapi_startup\<close> calls three primitives in a
  ZTS build, not one.
\<close>

theorem not_every_wrapper_is_a_forward:
  "ext_php_rs_set_known_valid_utf8 ref_engine 32 machine0
     \<noteq> machine0\<lparr>zstr := (zstr machine0)
          (32 := GC_ADD_FLAGS ref_engine (zstr machine0 32) (IS_STR_VALID_UTF8 ref_engine))\<rparr>
   \<and> stdout (snd (ext_php_rs_sapi_check_sg ref_engine machine0)) \<noteq> stdout machine0
   \<and> stdout (snd (ext_php_rs_sapi_check_sg ref_engine machine0))
       = ''SG(request_info).request_method: NULL'' @ [CHR 0x0A]
   \<and> stdout (snd (ext_php_rs_sapi_check_sg ref_engine
         (machine0\<lparr>engine_state := world0\<lparr>sg_request_method := Some ''GET''\<rparr>\<rparr>)))
       = ''SG(request_info).request_method: '' @ [CHR 0x22] @ ''GET'' @ [CHR 0x22, CHR 0x0A]
   \<and> called (engine_state (snd (ext_php_rs_sapi_startup zts_build ref_engine machine0)))
       = [''signal'', ''php_tsrm_startup'', ''zend_signal_startup'']"
proof -
  have kept: "gc_type_info (zstr (ext_php_rs_set_known_valid_utf8 ref_engine 32 machine0) 32) = 0x56"
    by (simp add: ext_php_rs_set_known_valid_utf8_def ref_interned_is_interned)
      (simp add: machine0_def interned_string_def)
  have added: "gc_type_info (zstr (machine0\<lparr>zstr := (zstr machine0)
      (32 := GC_ADD_FLAGS ref_engine (zstr machine0 32) (IS_STR_VALID_UTF8 ref_engine))\<rparr>) 32) = 0x256"
    by (simp add: ref_engine_def ref_GC_ADD_FLAGS_def ref_IS_STR_VALID_UTF8_def GC_FLAGS_SHIFT_def
        machine0_def interned_string_def)
  have guard: "ext_php_rs_set_known_valid_utf8 ref_engine 32 machine0
     \<noteq> machine0\<lparr>zstr := (zstr machine0)
          (32 := GC_ADD_FLAGS ref_engine (zstr machine0 32) (IS_STR_VALID_UTF8 ref_engine))\<rparr>"
  proof
    assume "ext_php_rs_set_known_valid_utf8 ref_engine 32 machine0
     = machine0\<lparr>zstr := (zstr machine0)
          (32 := GC_ADD_FLAGS ref_engine (zstr machine0 32) (IS_STR_VALID_UTF8 ref_engine))\<rparr>"
    then have "(0x56 :: u32) = 0x256"
      using kept added by metis
    then show False
      by simp
  qed
  have out: "stdout (snd (ext_php_rs_sapi_check_sg ref_engine machine0))
       = ''SG(request_info).request_method: NULL'' @ [CHR 0x0A]"
    by (simp add: ext_php_rs_sapi_check_sg_def printf_def ref_engine_def machine0_def world0_def)
  have out_get: "stdout (snd (ext_php_rs_sapi_check_sg ref_engine
         (machine0\<lparr>engine_state := world0\<lparr>sg_request_method := Some ''GET''\<rparr>\<rparr>)))
       = ''SG(request_info).request_method: '' @ [CHR 0x22] @ ''GET'' @ [CHR 0x22, CHR 0x0A]"
    by (simp add: ext_php_rs_sapi_check_sg_def printf_def ref_engine_def machine0_def)
  have silent: "stdout machine0 = []"
    by (simp add: machine0_def)
  have three: "called (engine_state (snd (ext_php_rs_sapi_startup zts_build ref_engine machine0)))
       = [''signal'', ''php_tsrm_startup'', ''zend_signal_startup'']"
    by (rule ref_sapi_startup_calls)
  show ?thesis
    using guard out out_get silent three by simp
qed

text \<open>
  C1, as the code has it. Seven wrappers forward to one engine primitive and add
  nothing. The accessors of the executor, core and SAPI globals, the accessor of the
  file globals in a build without ZTS, and \<open>ext_php_rs_sapi_shutdown\<close> forward to
  one primitive chosen by the build alone (none for the shutdown without ZTS). The
  other wrappers put code of their own around the primitives: a mask and a test, a
  run-time guard, a store and a flag around the recovery block, a default around the
  embed block, a fixed sequence of routines, a run-time test and a print.
\<close>

theorem wrappers_as_written:
  "ext_php_rs_zend_string_init E str len persistent = zend_string_init E str len persistent
   \<and> ext_php_rs_zend_string_release E zs = zend_string_release E zs
   \<and> ext_php_rs_php_build_id E = ZEND_MODULE_BUILD_ID E
   \<and> ext_php_rs_zend_object_alloc E obj_size ce = zend_object_alloc E obj_size ce
   \<and> ext_php_rs_zend_object_release E obj = zend_object_release E obj
   \<and> ext_php_rs_sapi_module E = addr_sapi_module E
   \<and> ext_php_rs_zend_bailout s = zend_bailout s
   \<and> ext_php_rs_executor_globals B E s =
       (if ZTS B then
          (if ZEND_ENABLE_STATIC_TSRMLS_CACHE B
           then TSRMG_FAST_BULK_STATIC E (executor_globals_offset E s) s
           else TSRMG_FAST_BULK E (executor_globals_offset E s) s)
        else addr_executor_globals E)
   \<and> ext_php_rs_process_globals B E s =
       (if ZTS B then
          (if ZEND_ENABLE_STATIC_TSRMLS_CACHE B
           then TSRMG_FAST_BULK_STATIC E (core_globals_offset E s) s
           else TSRMG_FAST_BULK E (core_globals_offset E s) s)
        else addr_core_globals E)
   \<and> ext_php_rs_sapi_globals B E s =
       (if ZTS B then
          (if ZEND_ENABLE_STATIC_TSRMLS_CACHE B
           then TSRMG_FAST_BULK_STATIC E (sapi_globals_offset E s) s
           else TSRMG_FAST_BULK E (sapi_globals_offset E s) s)
        else addr_sapi_globals E)
   \<and> ext_php_rs_file_globals (B\<lparr>ZTS := False\<rparr>) E s = addr_file_globals E
   \<and> ext_php_rs_sapi_shutdown B E = (if ZTS B then tsrm_shutdown E else ret ())
   \<and> ext_php_rs_is_known_valid_utf8 E zs s = (GC_FLAGS E (zstr s zs) AND IS_STR_VALID_UTF8 E \<noteq> 0)
   \<and> ext_php_rs_set_known_valid_utf8 E zs s =
       (if ZSTR_IS_INTERNED E (zstr s zs) = 0
        then s\<lparr>zstr := (zstr s)(zs := GC_ADD_FLAGS E (zstr s zs) (IS_STR_VALID_UTF8 E))\<rparr>
        else s)
   \<and> ext_php_rs_zend_try_catch callback ctx result
       = zend_try (andthen (callback ctx) (store result)) (ret True) (ret False)
   \<and> ext_php_rs_zend_first_try_catch callback ctx result
       = zend_first_try (andthen (callback ctx) (store result)) (ret True) (ret False)
   \<and> ext_php_rs_embed_callback E argc argv callback ctx
       = andthen (PHP_EMBED_BLOCK E argc argv (callback ctx))
           (\<lambda>r. ret (case r of None \<Rightarrow> 0 | Some v \<Rightarrow> v))
   \<and> ext_php_rs_sapi_startup B E = in_order (sapi_startup_routines B E)
   \<and> ext_php_rs_sapi_per_thread_init B E =
       in_order (if ZTS B
                 then discard (ts_resource E 0) # (if PHP_WIN32 B then [ZEND_TSRMLS_CACHE_UPDATE E] else [])
                 else [])
   \<and> ext_php_rs_sapi_check_sg E s =
       (case SG_request_info_request_method E s of
          None \<Rightarrow> printf (''SG(request_info).request_method: NULL'' @ [CHR 0x0A]) s
        | Some request_method \<Rightarrow>
            printf (''SG(request_info).request_method: '' @ [CHR 0x22] @ request_method
                    @ [CHR 0x22, CHR 0x0A]) s)"
proof -
  have startup: "ext_php_rs_sapi_startup B E = in_order (sapi_startup_routines B E)"
    by (simp add: ext_php_rs_sapi_startup_def sapi_startup_routines_def andthen_ret
        andthen_ret_right andthen_assoc)
  have per_thread: "ext_php_rs_sapi_per_thread_init B E =
       in_order (if ZTS B
                 then discard (ts_resource E 0) # (if PHP_WIN32 B then [ZEND_TSRMLS_CACHE_UPDATE E] else [])
                 else [])"
    by (simp add: ext_php_rs_sapi_per_thread_init_def andthen_ret_right)
  have accessors:
    "ext_php_rs_executor_globals B E s =
       (if ZTS B then
          (if ZEND_ENABLE_STATIC_TSRMLS_CACHE B
           then TSRMG_FAST_BULK_STATIC E (executor_globals_offset E s) s
           else TSRMG_FAST_BULK E (executor_globals_offset E s) s)
        else addr_executor_globals E)"
    "ext_php_rs_process_globals B E s =
       (if ZTS B then
          (if ZEND_ENABLE_STATIC_TSRMLS_CACHE B
           then TSRMG_FAST_BULK_STATIC E (core_globals_offset E s) s
           else TSRMG_FAST_BULK E (core_globals_offset E s) s)
        else addr_core_globals E)"
    "ext_php_rs_sapi_globals B E s =
       (if ZTS B then
          (if ZEND_ENABLE_STATIC_TSRMLS_CACHE B
           then TSRMG_FAST_BULK_STATIC E (sapi_globals_offset E s) s
           else TSRMG_FAST_BULK E (sapi_globals_offset E s) s)
        else addr_sapi_globals E)"
    "ext_php_rs_file_globals (B\<lparr>ZTS := False\<rparr>) E s = addr_file_globals E"
    by (simp_all add: accessors_select_by_build)
  have forwards:
    "ext_php_rs_zend_string_init E str len persistent = zend_string_init E str len persistent"
    "ext_php_rs_zend_string_release E zs = zend_string_release E zs"
    "ext_php_rs_php_build_id E = ZEND_MODULE_BUILD_ID E"
    "ext_php_rs_zend_object_alloc E obj_size ce = zend_object_alloc E obj_size ce"
    "ext_php_rs_zend_object_release E obj = zend_object_release E obj"
    "ext_php_rs_sapi_module E = addr_sapi_module E"
    "ext_php_rs_zend_bailout s = zend_bailout s"
    "ext_php_rs_sapi_shutdown B E = (if ZTS B then tsrm_shutdown E else ret ())"
    by (simp_all add: ext_php_rs_zend_string_init_def ext_php_rs_zend_string_release_def
        ext_php_rs_php_build_id_def ext_php_rs_zend_object_alloc_def
        ext_php_rs_zend_object_release_def ext_php_rs_sapi_module_def
        ext_php_rs_zend_bailout_def ext_php_rs_sapi_shutdown_def)
  have own:
    "ext_php_rs_is_known_valid_utf8 E zs s = (GC_FLAGS E (zstr s zs) AND IS_STR_VALID_UTF8 E \<noteq> 0)"
    "ext_php_rs_set_known_valid_utf8 E zs s =
       (if ZSTR_IS_INTERNED E (zstr s zs) = 0
        then s\<lparr>zstr := (zstr s)(zs := GC_ADD_FLAGS E (zstr s zs) (IS_STR_VALID_UTF8 E))\<rparr>
        else s)"
    "ext_php_rs_zend_try_catch callback ctx result
       = zend_try (andthen (callback ctx) (store result)) (ret True) (ret False)"
    "ext_php_rs_zend_first_try_catch callback ctx result
       = zend_first_try (andthen (callback ctx) (store result)) (ret True) (ret False)"
    "ext_php_rs_embed_callback E argc argv callback ctx
       = andthen (PHP_EMBED_BLOCK E argc argv (callback ctx))
           (\<lambda>r. ret (case r of None \<Rightarrow> 0 | Some v \<Rightarrow> v))"
    "ext_php_rs_sapi_check_sg E s =
       (case SG_request_info_request_method E s of
          None \<Rightarrow> printf (''SG(request_info).request_method: NULL'' @ [CHR 0x0A]) s
        | Some request_method \<Rightarrow>
            printf (''SG(request_info).request_method: '' @ [CHR 0x22] @ request_method
                    @ [CHR 0x22, CHR 0x0A]) s)"
    by (simp_all only: ext_php_rs_is_known_valid_utf8_def ext_php_rs_set_known_valid_utf8_def
        ext_php_rs_zend_try_catch_def ext_php_rs_zend_first_try_catch_def
        ext_php_rs_embed_callback_def ext_php_rs_sapi_check_sg_def)
  show ?thesis
    by (intro conjI startup per_thread accessors forwards own)
qed

end
